theory Spec2Isabelle
  imports Complex_Main "HOL-Library.Signed_Division" "HOL-Library.Log_Nat"
begin

section \<open>The video player of \<^verbatim>\<open>src/Components/VideoPlayer.tsx\<close>\<close>

text \<open>
  The component mirrors the playback status of a browser media element into a snapshot
  (\<^verbatim>\<open>PlayerState\<close>) and offers five commands that mutate the element. The embedding
  below follows the source function by function. Four things the source leaves implicit
  are written out:
  \<^item> a JavaScript \<^verbatim>\<open>number\<close> is an IEEE 754 double: a real number, \<^verbatim>\<open>NaN\<close>,
    \<^verbatim>\<open>Infinity\<close> or \<^verbatim>\<open>-Infinity\<close>. A finite value is the real number it denotes
    (\<open>Fin x\<close>; the doubles are some of the reals, of magnitude below \<^verbatim>\<open>2^1024\<close>).
    \<^verbatim>\<open>Math.min\<close>, \<^verbatim>\<open>Math.max\<close>, \<^verbatim>\<open>Math.floor\<close>, \<^verbatim>\<open>%\<close> and the comparisons
    are exact on doubles; the one operation of the source that rounds is the division in
    \<^verbatim>\<open>formatTime\<close>, which is modelled with its rounding (\<open>round_double\<close>). Negative
    zero is identified with zero; every operation used here treats the two alike.
  \<^item> the media element is the host platform's object. Its attributes are a record, and
    assigning to an attribute follows the element's interface: \<^verbatim>\<open>currentTime\<close> and
    \<^verbatim>\<open>volume\<close> are of the IDL type \<^verbatim>\<open>double\<close>, so that assigning a non-finite
    number throws \<^verbatim>\<open>TypeError\<close>, and \<^verbatim>\<open>volume\<close> outside \<open>[0, 1]\<close> throws
    \<^verbatim>\<open>IndexSizeError\<close>.
  \<^item> the \<^verbatim>\<open><video>\<close> node is one object, which \<^verbatim>\<open>videoRef.current\<close>, the five
    handlers and the clean-up of the effect all refer to. React sets the reference to the
    node when it mounts it and back to \<^verbatim>\<open>null\<close> when it unmounts it; the handlers and the
    clean-up keep the node they captured.
  \<^item> an \<^verbatim>\<open>await\<close> on a platform promise is one step, whose outcome (fulfilled or
    rejected) is an argument of the command.
\<close>

subsection \<open>Numbers\<close>

datatype jsnum = NaN | NegInf | Fin real | PosInf

fun isFinite :: "jsnum \<Rightarrow> bool" where
  "isFinite (Fin x) = True"
| "isFinite NaN = False"
| "isFinite NegInf = False"
| "isFinite PosInf = False"

text \<open>The relational operators: every comparison with \<^verbatim>\<open>NaN\<close> is false.\<close>

fun js_less :: "jsnum \<Rightarrow> jsnum \<Rightarrow> bool" where
  "js_less NaN b = False"
| "js_less a NaN = False"
| "js_less NegInf NegInf = False"
| "js_less NegInf b = True"
| "js_less a NegInf = False"
| "js_less PosInf b = False"
| "js_less (Fin x) PosInf = True"
| "js_less (Fin x) (Fin y) = (x < y)"

definition js_greater :: "jsnum \<Rightarrow> jsnum \<Rightarrow> bool" where
  "js_greater a b = js_less b a"

definition js_le :: "jsnum \<Rightarrow> jsnum \<Rightarrow> bool" where
  "js_le a b = (a \<noteq> NaN \<and> b \<noteq> NaN \<and> \<not> js_less b a)"

text \<open>\<^verbatim>\<open>Math.max\<close> and \<^verbatim>\<open>Math.min\<close> of two arguments: \<^verbatim>\<open>NaN\<close> if either is.\<close>

definition Math_max :: "jsnum \<Rightarrow> jsnum \<Rightarrow> jsnum" where
  "Math_max a b = (if a = NaN \<or> b = NaN then NaN else if js_less a b then b else a)"

definition Math_min :: "jsnum \<Rightarrow> jsnum \<Rightarrow> jsnum" where
  "Math_min a b = (if a = NaN \<or> b = NaN then NaN else if js_less b a then b else a)"

text \<open>\<^verbatim>\<open>a || b\<close> on numbers: the falsy numbers are \<^verbatim>\<open>NaN\<close> and zero.\<close>

definition js_or :: "jsnum \<Rightarrow> jsnum \<Rightarrow> jsnum" where
  "js_or a b = (if a = NaN \<or> a = Fin 0 then b else a)"

text \<open>
  Division. \<^verbatim>\<open>a / b\<close> is the exact quotient rounded to the nearest double, ties to the
  even significand. \<open>binary_exponent a\<close> is the \<open>e\<close> with \<^verbatim>\<open>2^e <= a < 2^(e+1)\<close>; the
  doubles in that range are the multiples of \<^verbatim>\<open>2^(e-52)\<close>, and those below
  \<^verbatim>\<open>2^-1022\<close> the multiples of \<^verbatim>\<open>2^-1074\<close>. (A result of magnitude \<^verbatim>\<open>2^1024\<close> or
  more would be an infinity; the quotient of a double by 60 never is.)
\<close>

definition pow2 :: "int \<Rightarrow> real" where
  "pow2 i = (if 0 \<le> i then 2 ^ nat i else 1 / 2 ^ nat (- i))"

definition binary_exponent :: "real \<Rightarrow> int" where
  "binary_exponent a =
     (if 1 \<le> a then bitlen \<lfloor>a\<rfloor> - 1 else - bitlen (\<lceil>1 / a\<rceil> - 1))"

definition round_half_even :: "real \<Rightarrow> int" where
  "round_half_even y =
     (let f = \<lfloor>y\<rfloor>; d = y - of_int f
      in if d < 1 / 2 then f else if 1 / 2 < d then f + 1 else if even f then f else f + 1)"

definition round_double :: "real \<Rightarrow> real" where
  "round_double x =
     (if x = 0 then 0
      else let u = pow2 (max (binary_exponent \<bar>x\<bar>) (- 1022) - 52)
           in sgn x * (of_int (round_half_even (\<bar>x\<bar> / u)) * u))"

text \<open>
  Conversion to a string. \<open>digits n\<close> is \<open>n\<close> in decimal. \<^verbatim>\<open>String(x)\<close> and the
  interpolation \<^verbatim>\<open>${x}\<close> follow Number::toString of ECMAScript: with \<open>k\<close> as small as
  possible, take integers \<open>n\<close>, \<open>k\<close>, \<open>s\<close> such that \<open>s\<close> has \<open>k\<close> digits and
  \<^verbatim>\<open>s * 10^(n-k)\<close> rounds to \<open>x\<close> (the \<open>s\<close> nearest to \<open>x\<close>, the even one on a tie); print
  the digits of \<open>s\<close> followed by \<open>n - k\<close> zeros when \<open>n \<le> 21\<close>, and in exponent notation
  otherwise. Only integral \<open>x\<close> are converted here, for which \<open>k \<le> n\<close>; seventeen digits
  tell any two doubles apart, so \<open>k\<close> is searched up to 17. (For an integer that is not
  a double the search finds nothing; its digits are printed then.)
\<close>

fun digits :: "nat \<Rightarrow> string" where
  "digits n =
     (if n < 10 then [''0123456789'' ! n]
      else digits (n div 10) @ [''0123456789'' ! (n mod 10)])"

declare digits.simps [simp del]

definition candidates :: "int \<Rightarrow> nat \<Rightarrow> (nat \<times> int) list" where
  "candidates X k =
     [(n, s).
        n \<leftarrow> [length (digits (nat X)), Suc (length (digits (nat X)))], k \<le> n,
        s \<leftarrow> [X div 10 ^ (n - k), X div 10 ^ (n - k) + 1],
        10 ^ (k - 1) \<le> s, s < 10 ^ k,
        round_double (of_int (s * 10 ^ (n - k))) = of_int X]"

definition closer :: "int \<Rightarrow> nat \<Rightarrow> nat \<times> int \<Rightarrow> nat \<times> int \<Rightarrow> bool" where
  "closer X k c d =
     (let ec = \<bar>snd c * 10 ^ (fst c - k) - X\<bar>; ed = \<bar>snd d * 10 ^ (fst d - k) - X\<bar>
      in ec < ed \<or> (ec = ed \<and> even (snd c)))"

fun pick_closest :: "int \<Rightarrow> nat \<Rightarrow> (nat \<times> int) list \<Rightarrow> (nat \<times> int) option" where
  "pick_closest X k [] = None"
| "pick_closest X k (c # cs) =
     (case pick_closest X k cs of
        None \<Rightarrow> Some c
      | Some d \<Rightarrow> if closer X k c d then Some c else Some d)"

definition shortest :: "int \<Rightarrow> (nat \<times> nat \<times> int) option" where
  "shortest X =
     (case find (\<lambda>k. candidates X k \<noteq> []) [1..<18] of
        None \<Rightarrow> None
      | Some k \<Rightarrow> map_option (\<lambda>(n, s). (k, n, s)) (pick_closest X k (candidates X k)))"

definition Number_toString :: "int \<Rightarrow> string" where
  "Number_toString X =
     (case shortest X of
        None \<Rightarrow> digits (nat X)
      | Some (k, n, s) \<Rightarrow>
          if n \<le> 21 then digits (nat s) @ replicate (n - k) (CHR ''0'')
          else (if k = 1 then digits (nat s)
                else hd (digits (nat s)) # CHR ''.'' # tl (digits (nat s)))
               @ ''e+'' @ digits (n - 1))"

definition String_of :: "int \<Rightarrow> string" where
  "String_of k =
     (if k = 0 then ''0''
      else if k < 0 then CHR ''-'' # Number_toString (- k)
      else Number_toString k)"

text \<open>\<^verbatim>\<open>padStart\<close> with a one-character filler.\<close>

definition padStart :: "string \<Rightarrow> nat \<Rightarrow> char \<Rightarrow> string" where
  "padStart s n c = replicate (n - length s) c @ s"

subsection \<open>The pure helpers\<close>

text \<open>
  \<^verbatim>\<open>
  function clamp(n: number, min: number, max: number) {
    return Math.min(Math.max(n, min), max);
  }
  \<close>
\<close>

definition clamp :: "jsnum \<Rightarrow> jsnum \<Rightarrow> jsnum \<Rightarrow> jsnum" where
  "clamp n mn mx = Math_min (Math_max n mn) mx"

text \<open>
  \<^verbatim>\<open>
  function formatTime(seconds: number) {
    if (!Number.isFinite(seconds) || seconds < 0) return "0:00";
    const s = Math.floor(seconds);
    const m = Math.floor(s / 60);
    const r = s % 60;
    return `${m}:${String(r).padStart(2, "0")}`;
  }
  \<close>
  Past the guard \<^verbatim>\<open>seconds\<close> is finite, so \<^verbatim>\<open>s\<close>, \<^verbatim>\<open>m\<close> and \<^verbatim>\<open>r\<close> are integers.
  The quotient \<^verbatim>\<open>s / 60\<close> is a division of doubles, and \<^verbatim>\<open>%\<close> is the exact
  remainder with the sign of the dividend (\<open>smod\<close>).
\<close>

definition formatTime :: "jsnum \<Rightarrow> string" where
  "formatTime seconds =
     (if \<not> isFinite seconds \<or> js_less seconds (Fin 0) then ''0:00''
      else case seconds of
        Fin x \<Rightarrow>
          (let s = \<lfloor>x\<rfloor>;
               m = \<lfloor>round_double (real_of_int s / 60)\<rfloor>;
               r = s smod 60
           in String_of m @ '':'' @ padStart (String_of r) 2 (CHR ''0''))
      | _ \<Rightarrow> ''0:00'')"

subsection \<open>The media element\<close>

text \<open>
  The attributes of \<^verbatim>\<open>HTMLVideoElement\<close> that the component reads or writes.
  \<^verbatim>\<open>duration\<close> is \<^verbatim>\<open>NaN\<close> while no metadata is known and \<^verbatim>\<open>Infinity\<close> for an
  unbounded stream.
\<close>

record HTMLVideoElement =
  paused :: bool
  currentTime :: jsnum
  duration :: jsnum
  muted :: bool
  volume :: jsnum

text \<open>A media element that has loaded nothing yet, as the platform creates it.\<close>

definition fresh_video :: HTMLVideoElement where
  "fresh_video =
     \<lparr>paused = True, currentTime = Fin 0, duration = NaN, muted = False, volume = Fin 1\<rparr>"

datatype exn = TypeError | IndexSizeError | NotAllowedError

text \<open>
  Assignments to the attributes. The element is the browser's, not the repository's, so
  the setters follow its interface as the HTML and Web IDL standards give it:
  \<^verbatim>\<open>currentTime\<close> and \<^verbatim>\<open>volume\<close> are declared \<^verbatim>\<open>attribute double\<close>, and the
  conversion of a JavaScript number to \<^verbatim>\<open>double\<close> throws \<^verbatim>\<open>TypeError\<close> for
  \<^verbatim>\<open>NaN\<close> and the infinities; the \<^verbatim>\<open>volume\<close> setter throws
  \<^verbatim>\<open>IndexSizeError\<close> for a value outside \<open>[0, 1]\<close> and stores any other. A seek
  to a finite time is taken to land on that time.
\<close>

definition set_currentTime :: "jsnum \<Rightarrow> HTMLVideoElement \<Rightarrow> exn + HTMLVideoElement" where
  "set_currentTime x v =
     (if \<not> isFinite x then Inl TypeError
      else Inr (v\<lparr>HTMLVideoElement.currentTime := x\<rparr>))"

definition set_volume :: "jsnum \<Rightarrow> HTMLVideoElement \<Rightarrow> exn + HTMLVideoElement" where
  "set_volume x v =
     (if \<not> isFinite x then Inl TypeError
      else if js_less x (Fin 0) \<or> js_less (Fin 1) x then Inl IndexSizeError
      else Inr (v\<lparr>HTMLVideoElement.volume := x\<rparr>))"

definition set_muted :: "bool \<Rightarrow> HTMLVideoElement \<Rightarrow> HTMLVideoElement" where
  "set_muted b v = v\<lparr>HTMLVideoElement.muted := b\<rparr>"

text \<open>
  \<^verbatim>\<open>play()\<close> returns a promise. The platform either starts playback or refuses the
  request (autoplay policy), which leaves the element as it was; which of the two happens
  is the argument \<open>allowed\<close>. \<^verbatim>\<open>pause()\<close> cannot fail.
\<close>

definition video_play :: "bool \<Rightarrow> HTMLVideoElement \<Rightarrow> exn + HTMLVideoElement" where
  "video_play allowed v =
     (if allowed then Inr (v\<lparr>HTMLVideoElement.paused := False\<rparr>) else Inl NotAllowedError)"

definition video_pause :: "HTMLVideoElement \<Rightarrow> HTMLVideoElement" where
  "video_pause v = v\<lparr>HTMLVideoElement.paused := True\<rparr>"

subsection \<open>The snapshot and the component's state\<close>

record PlayerState =
  playing :: bool
  current :: jsnum
  duration :: jsnum
  muted :: bool
  volume :: jsnum

datatype event = LoadedMetadata | TimeUpdate | Play | Pause | VolumeChange

datatype handler = OnLoadedMetadata | OnTimeUpdate | OnPlay | OnPause | OnVolume

datatype request = PlayRequest | PauseRequest | RequestFullscreen | ExitFullscreen

text \<open>
  One \<^verbatim>\<open>VideoPlayer\<close> and the \<^verbatim>\<open><video>\<close> node it renders. \<open>video\<close> is the node, and
  \<open>attached\<close> says whether \<^verbatim>\<open>videoRef.current\<close> points to it (otherwise it is
  \<^verbatim>\<open>null\<close>); \<open>state\<close> is the value held by \<^verbatim>\<open>useState\<close>, \<open>listeners\<close> the listeners
  registered on the node in registration order, \<open>effect_cleanup\<close> whether the effect has
  returned its clean-up function and React has not called it yet, \<open>fullscreenElement\<close>
  whether \<^verbatim>\<open>document.fullscreenElement\<close> is set, \<open>console\<close> what \<^verbatim>\<open>console.error\<close> has
  printed, and \<open>requests\<close> the method calls issued to the platform so far.
\<close>

record player =
  video :: HTMLVideoElement
  attached :: bool
  state :: PlayerState
  listeners :: "(event \<times> handler) list"
  effect_cleanup :: bool
  fullscreenElement :: bool
  console :: "(string \<times> exn) list"
  requests :: "request list"

text \<open>\<^verbatim>\<open>videoRef.current\<close>: the node or \<^verbatim>\<open>null\<close>.\<close>

definition videoRef :: "player \<Rightarrow> HTMLVideoElement option" where
  "videoRef p = (if attached p then Some (video p) else None)"

text \<open>The argument of \<^verbatim>\<open>useState\<close>.\<close>

definition initial_state :: PlayerState where
  "initial_state =
     \<lparr>playing = False, current = Fin 0, duration = Fin 0, muted = False, volume = Fin 1\<rparr>"

text \<open>
  A player as the component function leaves it: with the reference on the node \<open>v\<close>
  (\<open>Some v\<close>), or with the reference still \<^verbatim>\<open>null\<close> and the node yet to be created
  (\<open>None\<close>).
\<close>

definition VideoPlayer :: "HTMLVideoElement option \<Rightarrow> bool \<Rightarrow> player" where
  "VideoPlayer el fs =
     \<lparr>video = (case el of None \<Rightarrow> fresh_video | Some v \<Rightarrow> v),
      attached = (case el of None \<Rightarrow> False | Some v \<Rightarrow> True),
      state = initial_state, listeners = [], effect_cleanup = False,
      fullscreenElement = fs, console = [], requests = []\<rparr>"

subsection \<open>The playback state mirror\<close>

text \<open>
  \<^verbatim>\<open>
  const onLoadedMetadata = () =>
    setState((s) => ({ ...s, duration: v.duration || 0 }));
  const onTimeUpdate = () =>
    setState((s) => ({ ...s, current: v.currentTime || 0 }));
  const onPlay = () => setState((s) => ({ ...s, playing: true }));
  const onPause = () => setState((s) => ({ ...s, playing: false }));
  const onVolume = () =>
    setState((s) => ({ ...s, volume: v.volume, muted: v.muted }));
  \<close>
  Each handler is the updater it passes to \<^verbatim>\<open>setState\<close>, applied to the node \<open>v\<close>
  that the effect captured, as it is when the handler runs.
\<close>

definition onLoadedMetadata :: "HTMLVideoElement \<Rightarrow> PlayerState \<Rightarrow> PlayerState" where
  "onLoadedMetadata v s =
     s\<lparr>PlayerState.duration := js_or (HTMLVideoElement.duration v) (Fin 0)\<rparr>"

definition onTimeUpdate :: "HTMLVideoElement \<Rightarrow> PlayerState \<Rightarrow> PlayerState" where
  "onTimeUpdate v s = s\<lparr>current := js_or (currentTime v) (Fin 0)\<rparr>"

definition onPlay :: "HTMLVideoElement \<Rightarrow> PlayerState \<Rightarrow> PlayerState" where
  "onPlay v s = s\<lparr>playing := True\<rparr>"

definition onPause :: "HTMLVideoElement \<Rightarrow> PlayerState \<Rightarrow> PlayerState" where
  "onPause v s = s\<lparr>playing := False\<rparr>"

definition onVolume :: "HTMLVideoElement \<Rightarrow> PlayerState \<Rightarrow> PlayerState" where
  "onVolume v s =
     s\<lparr>PlayerState.volume := HTMLVideoElement.volume v,
       PlayerState.muted := HTMLVideoElement.muted v\<rparr>"

fun run_handler :: "handler \<Rightarrow> HTMLVideoElement \<Rightarrow> PlayerState \<Rightarrow> PlayerState" where
  "run_handler OnLoadedMetadata = onLoadedMetadata"
| "run_handler OnTimeUpdate = onTimeUpdate"
| "run_handler OnPlay = onPlay"
| "run_handler OnPause = onPause"
| "run_handler OnVolume = onVolume"

text \<open>
  The listener list of the element: registering a pair that is already there does
  nothing, removing takes the pair out.
\<close>

definition addEventListener ::
  "event \<Rightarrow> handler \<Rightarrow> (event \<times> handler) list \<Rightarrow> (event \<times> handler) list" where
  "addEventListener ty h ls = (if (ty, h) \<in> set ls then ls else ls @ [(ty, h)])"

definition removeEventListener ::
  "event \<Rightarrow> handler \<Rightarrow> (event \<times> handler) list \<Rightarrow> (event \<times> handler) list" where
  "removeEventListener ty h ls = removeAll (ty, h) ls"

text \<open>
  \<^verbatim>\<open>
  useEffect(() => {
    const v = videoRef.current;
    if (!v) return;
    ...
    v.addEventListener("loadedmetadata", onLoadedMetadata);
    v.addEventListener("timeupdate", onTimeUpdate);
    v.addEventListener("play", onPlay);
    v.addEventListener("pause", onPause);
    v.addEventListener("volumechange", onVolume);

    // init snapshot
    onLoadedMetadata();
    onTimeUpdate();
    onVolume();
    setState((s) => ({ ...s, playing: !v.paused }));

    return () => { ... };
  }, []);
  \<close>
  The body of the effect: nothing, and no clean-up, without a node; otherwise the five
  subscriptions, the initial reading of the node, and the clean-up function returned.
\<close>

definition useEffect_setup :: "player \<Rightarrow> player" where
  "useEffect_setup p =
     (case videoRef p of
        None \<Rightarrow> p
      | Some v \<Rightarrow>
          (let l1 = addEventListener LoadedMetadata OnLoadedMetadata (listeners p);
               l2 = addEventListener TimeUpdate OnTimeUpdate l1;
               l3 = addEventListener Play OnPlay l2;
               l4 = addEventListener Pause OnPause l3;
               l5 = addEventListener VolumeChange OnVolume l4;
               s1 = onLoadedMetadata v (state p);
               s2 = onTimeUpdate v s1;
               s3 = onVolume v s2;
               s4 = s3\<lparr>playing := \<not> paused v\<rparr>
           in p\<lparr>state := s4, listeners := l5, effect_cleanup := True\<rparr>))"

text \<open>
  \<^verbatim>\<open>
  return () => {
    v.removeEventListener("loadedmetadata", onLoadedMetadata);
    v.removeEventListener("timeupdate", onTimeUpdate);
    v.removeEventListener("play", onPlay);
    v.removeEventListener("pause", onPause);
    v.removeEventListener("volumechange", onVolume);
  };
  \<close>
  The clean-up. React calls it, once, if the effect returned it. It works on the node
  \<open>v\<close> that the effect captured and does not read \<^verbatim>\<open>videoRef.current\<close>, which React
  has reset to \<^verbatim>\<open>null\<close> by the time it runs.
\<close>

definition useEffect_cleanup :: "player \<Rightarrow> player" where
  "useEffect_cleanup p =
     (if effect_cleanup p then
        (let l1 = removeEventListener LoadedMetadata OnLoadedMetadata (listeners p);
             l2 = removeEventListener TimeUpdate OnTimeUpdate l1;
             l3 = removeEventListener Play OnPlay l2;
             l4 = removeEventListener Pause OnPause l3;
             l5 = removeEventListener VolumeChange OnVolume l4
         in p\<lparr>listeners := l5, effect_cleanup := False\<rparr>)
      else p)"

text \<open>
  A notification of the node: the listeners registered for the event run in registration
  order, each on the node as it is now, whether or not the reference still points to it.
\<close>

definition dispatchEvent :: "event \<Rightarrow> player \<Rightarrow> player" where
  "dispatchEvent ev p =
     p\<lparr>state :=
         foldl (\<lambda>s h. run_handler h (video p) s) (state p)
           (map snd (filter (\<lambda>l. fst l = ev) (listeners p)))\<rparr>"

subsection \<open>The command surface\<close>

text \<open>
  \<^verbatim>\<open>
  togglePlay: async () => {
    const v = videoRef.current;
    if (!v) return;
    try {
      if (v.paused) await v.play();
      else v.pause();
    } catch (e) {
      console.error("play() failed:", e);
    }
  },
  \<close>
\<close>

definition togglePlay :: "bool \<Rightarrow> player \<Rightarrow> exn + player" where
  "togglePlay allowed p =
     (case videoRef p of
        None \<Rightarrow> Inr p
      | Some v \<Rightarrow>
          if paused v then
            (case video_play allowed v of
               Inr v' \<Rightarrow>
                 Inr (p\<lparr>video := v', requests := requests p @ [PlayRequest]\<rparr>)
             | Inl e \<Rightarrow>
                 Inr (p\<lparr>console := console p @ [(''play() failed:'', e)],
                        requests := requests p @ [PlayRequest]\<rparr>))
          else
            Inr (p\<lparr>video := video_pause v, requests := requests p @ [PauseRequest]\<rparr>))"

text \<open>
  \<^verbatim>\<open>
  seekTo: (t: number) => {
    const v = videoRef.current;
    if (!v) return;
    const next = clamp(t, 0, Number.isFinite(v.duration) ? v.duration : 0);
    v.currentTime = next;
  },
  \<close>
\<close>

definition seekTo :: "jsnum \<Rightarrow> player \<Rightarrow> exn + player" where
  "seekTo t p =
     (case videoRef p of
        None \<Rightarrow> Inr p
      | Some v \<Rightarrow>
          (let next = clamp t (Fin 0)
                 (if isFinite (HTMLVideoElement.duration v) then HTMLVideoElement.duration v
                  else Fin 0)
           in case set_currentTime next v of
                Inl e \<Rightarrow> Inl e
              | Inr v' \<Rightarrow> Inr (p\<lparr>video := v'\<rparr>)))"

text \<open>
  \<^verbatim>\<open>
  toggleMute: () => {
    const v = videoRef.current;
    if (!v) return;
    v.muted = !v.muted;
  },
  \<close>
\<close>

definition toggleMute :: "player \<Rightarrow> exn + player" where
  "toggleMute p =
     (case videoRef p of
        None \<Rightarrow> Inr p
      | Some v \<Rightarrow> Inr (p\<lparr>video := set_muted (\<not> HTMLVideoElement.muted v) v\<rparr>))"

text \<open>
  \<^verbatim>\<open>
  setVolume: (vol: number) => {
    const v = videoRef.current;
    if (!v) return;
    v.volume = clamp(vol, 0, 1);
    if (v.volume > 0) v.muted = false;
  },
  \<close>
\<close>

definition setVolume :: "jsnum \<Rightarrow> player \<Rightarrow> exn + player" where
  "setVolume vol p =
     (case videoRef p of
        None \<Rightarrow> Inr p
      | Some v \<Rightarrow>
          (case set_volume (clamp vol (Fin 0) (Fin 1)) v of
             Inl e \<Rightarrow> Inl e
           | Inr v' \<Rightarrow>
               Inr (p\<lparr>video :=
                        (if js_greater (HTMLVideoElement.volume v') (Fin 0)
                         then set_muted False v' else v')\<rparr>)))"

text \<open>
  \<^verbatim>\<open>
  fullscreen: async () => {
    const v = videoRef.current;
    if (!v) return;
    try {
      if (document.fullscreenElement) await document.exitFullscreen();
      else await v.requestFullscreen();
    } catch (e) {
      console.error("fullscreen failed:", e);
    }
  },
  \<close>
  Whether the platform grants the request is the argument \<open>granted\<close>.
\<close>

definition fullscreen :: "bool \<Rightarrow> player \<Rightarrow> exn + player" where
  "fullscreen granted p =
     (case videoRef p of
        None \<Rightarrow> Inr p
      | Some v \<Rightarrow>
          (let rq = (if fullscreenElement p then ExitFullscreen else RequestFullscreen)
           in if granted then
                Inr (p\<lparr>fullscreenElement := \<not> fullscreenElement p,
                       requests := requests p @ [rq]\<rparr>)
              else
                Inr (p\<lparr>console := console p @ [(''fullscreen failed:'', TypeError)],
                       requests := requests p @ [rq]\<rparr>)))"

subsection \<open>Runs of the component\<close>

text \<open>
  Everything that can happen to a player: a command is invoked, the node notifies, the
  effect is set up or cleaned up, React resets the reference to \<^verbatim>\<open>null\<close> (which it does
  when it unmounts the node, before it calls the clean-up). An exception of a command is
  thrown by its first assignment to the node, so it leaves the player as it was.
\<close>

datatype action =
    TogglePlay bool
  | SeekTo jsnum
  | ToggleMute
  | SetVolume jsnum
  | Fullscreen bool
  | Notify event
  | Setup
  | Cleanup
  | DetachRef

fun command :: "action \<Rightarrow> player \<Rightarrow> exn + player" where
  "command (TogglePlay allowed) p = togglePlay allowed p"
| "command (SeekTo t) p = seekTo t p"
| "command ToggleMute p = toggleMute p"
| "command (SetVolume vol) p = setVolume vol p"
| "command (Fullscreen granted) p = fullscreen granted p"
| "command (Notify ev) p = Inr (dispatchEvent ev p)"
| "command Setup p = Inr (useEffect_setup p)"
| "command Cleanup p = Inr (useEffect_cleanup p)"
| "command DetachRef p = Inr (p\<lparr>attached := False\<rparr>)"

definition step :: "player \<Rightarrow> action \<Rightarrow> player" where
  "step p a = (case command a p of Inl e \<Rightarrow> p | Inr p' \<Rightarrow> p')"

definition run :: "action list \<Rightarrow> player \<Rightarrow> player" where
  "run as p = foldl step p as"

subsection \<open>Notions used to state the properties\<close>

text \<open>
  The element as a command leaves it: \<open>None\<close> when the command threw, or when there is
  no element.
\<close>

definition after :: "exn + player \<Rightarrow> HTMLVideoElement option" where
  "after r = (case r of Inl e \<Rightarrow> None | Inr p \<Rightarrow> videoRef p)"

text \<open>One command after another; an exception of the first ends the sequence.\<close>

definition and_then :: "exn + player \<Rightarrow> (player \<Rightarrow> exn + player) \<Rightarrow> exn + player" where
  "and_then r f = (case r of Inl e \<Rightarrow> Inl e | Inr p \<Rightarrow> f p)"

definition in_unit_interval :: "jsnum \<Rightarrow> bool" where
  "in_unit_interval x = (js_le (Fin 0) x \<and> js_le x (Fin 1))"

text \<open>
  The time label as the specification words it: the minutes, a colon, and the seconds
  within the minute in exactly two digits.
\<close>

definition two_digits :: "nat \<Rightarrow> string" where
  "two_digits n = [''0123456789'' ! (n div 10), ''0123456789'' ! (n mod 10)]"

definition minutes_seconds :: "int \<Rightarrow> string" where
  "minutes_seconds k = digits (nat (k div 60)) @ '':'' @ two_digits (nat (k mod 60))"

text \<open>
  The invariants of a run: volumes stay in the unit interval, and the node carries no
  listeners but the five of the effect, and none unless a clean-up is pending.
\<close>

definition volume_inv :: "player \<Rightarrow> bool" where
  "volume_inv p =
     (in_unit_interval (PlayerState.volume (state p)) \<and>
      in_unit_interval (HTMLVideoElement.volume (video p)))"

definition mirror_inv :: "player \<Rightarrow> bool" where
  "mirror_inv p =
     (set (listeners p) \<subseteq>
        {(LoadedMetadata, OnLoadedMetadata), (TimeUpdate, OnTimeUpdate), (Play, OnPlay),
         (Pause, OnPause), (VolumeChange, OnVolume)} \<and>
      (effect_cleanup p \<or> listeners p = []))"

text \<open>
  The element of the specification's scenarios: 30 s into 120 s, muted, at half volume.
\<close>

definition scenario_video :: HTMLVideoElement where
  "scenario_video =
     \<lparr>paused = True, currentTime = Fin 30, duration = Fin 120, muted = True,
      volume = Fin (1 / 2)\<rparr>"

section \<open>Properties\<close>

subsection \<open>Clamping\<close>

lemma clamp_cases:
  "clamp n (Fin lo) (Fin hi) =
     (case n of
        NaN \<Rightarrow> NaN
      | NegInf \<Rightarrow> Fin (min lo hi)
      | PosInf \<Rightarrow> Fin hi
      | Fin x \<Rightarrow> Fin (min (max x lo) hi))"
  by (cases n) (auto simp: clamp_def Math_min_def Math_max_def)

lemma clamp_unit:
  "n \<noteq> NaN \<Longrightarrow> \<exists>x. clamp n (Fin 0) (Fin 1) = Fin x \<and> 0 \<le> x \<and> x \<le> 1"
  by (cases n) (auto simp: clamp_cases)

lemma clamp_unit_pos:
  "js_greater n (Fin 0) \<Longrightarrow> js_greater (clamp n (Fin 0) (Fin 1)) (Fin 0)"
  by (cases n) (auto simp: clamp_cases js_greater_def)

lemma in_unit_interval_Fin [simp]: "in_unit_interval (Fin x) = (0 \<le> x \<and> x \<le> 1)"
  by (auto simp: in_unit_interval_def js_le_def)

lemma in_unit_interval_clamp: "n \<noteq> NaN \<Longrightarrow> in_unit_interval (clamp n (Fin 0) (Fin 1))"
  using clamp_unit [of n] by auto

subsection \<open>Rounding to a double\<close>

lemma round_half_even_of_int [simp]: "round_half_even (of_int n) = n"
  by (simp add: round_half_even_def)

lemma round_half_even_ge:
  assumes "of_int M \<le> y"
  shows "M \<le> round_half_even y"
proof -
  from assms have "M \<le> \<lfloor>y\<rfloor>" by (simp add: le_floor_iff)
  then show ?thesis by (auto simp: round_half_even_def Let_def)
qed


lemma binary_exponent_upper:
  assumes "0 < a" and "a < 2 ^ n" and "0 < n"
  shows "binary_exponent a \<le> int n - 1"
proof (cases "1 \<le> a")
  case True
  from assms(2) have "\<lfloor>a\<rfloor> < 2 ^ n"
    by (simp add: floor_less_iff)
  then have "bitlen \<lfloor>a\<rfloor> \<le> int n"
    by (simp add: bitlen_le_iff_power)
  with True show ?thesis by (simp add: binary_exponent_def)
next
  case False
  have "0 \<le> bitlen (\<lceil>1 / a\<rceil> - 1)" by (rule bitlen_nonneg)
  with False assms(3) show ?thesis by (simp add: binary_exponent_def)
qed

lemma binary_exponent_lower:
  assumes "2 ^ n \<le> a"
  shows "int n \<le> binary_exponent a \<and> 2 ^ nat (binary_exponent a) \<le> a"
proof -
  have one: "1 \<le> a" using assms one_le_power [of "2::real" n] by linarith
  from assms have fl: "2 ^ n \<le> \<lfloor>a\<rfloor>"
    by (simp add: le_floor_iff)
  then have pos: "0 < \<lfloor>a\<rfloor>"
    using zero_less_power [of "2::int" n] by linarith
  from fl have "int n + 1 \<le> bitlen \<lfloor>a\<rfloor>"
    by (simp add: bitlen_ge_iff_power nat_add_distrib)
  moreover from bitlen_bounds [OF pos] have "2 ^ nat (bitlen \<lfloor>a\<rfloor> - 1) \<le> \<lfloor>a\<rfloor>" ..
  then have "(2::real) ^ nat (bitlen \<lfloor>a\<rfloor> - 1) \<le> of_int \<lfloor>a\<rfloor>"
    using of_int_le_iff [of "2 ^ nat (bitlen \<lfloor>a\<rfloor> - 1)" "\<lfloor>a\<rfloor>", where ?'a = real]
    by simp
  then have "(2::real) ^ nat (bitlen \<lfloor>a\<rfloor> - 1) \<le> a"
    using of_int_floor_le [of a] by linarith
  ultimately show ?thesis using one by (simp add: binary_exponent_def)
qed

text \<open>Every integer from \<open>0\<close> to \<open>2\<^sup>5\<^sup>3\<close> is a double.\<close>

lemma round_double_of_int:
  assumes "0 \<le> y" and "y < 2 ^ 53"
  shows "round_double (of_int y) = of_int y"
proof (cases "y = 0")
  case True
  then show ?thesis by (simp add: round_double_def)
next
  case False
  with assms have pos: "0 < y" by simp
  let ?e = "binary_exponent (of_int y)"
  have a: "\<bar>real_of_int y\<bar> = of_int y" using pos by simp
  from assms(2) have "real_of_int y < 2 ^ 53"
    by simp
  with pos have up: "?e \<le> 52"
    using binary_exponent_upper [of "of_int y" 53] by simp
  have "(1::real) \<le> of_int y" using pos by simp
  then have low: "0 \<le> ?e"
    using binary_exponent_lower [of 0 "of_int y"] by simp
  define j where "j = nat (52 - ?e)"
  have u: "pow2 (max ?e (- 1022) - 52) = 1 / 2 ^ j"
    using up low by (auto simp: pow2_def j_def max_def)
  have "real_of_int y * 2 ^ j = of_int (y * 2 ^ j)" by simp
  then have "round_half_even (real_of_int y * 2 ^ j) = y * 2 ^ j"
    by (simp only: round_half_even_of_int)
  with pos show ?thesis
    by (simp add: round_double_def a u Let_def)
qed

text \<open>Nothing from \<open>2\<^sup>5\<^sup>3\<close> on rounds to below \<open>2\<^sup>5\<^sup>3\<close>.\<close>

lemma round_double_large:
  assumes "2 ^ 53 \<le> y"
  shows "2 ^ 53 \<le> round_double y"
proof -
  let ?e = "binary_exponent y"
  have ypos: "0 < y" using assms zero_less_power [of "2::real" 53] by linarith
  then have a: "\<bar>y\<bar> = y" by simp
  from binary_exponent_lower [OF assms] have e: "53 \<le> ?e" and b: "2 ^ nat ?e \<le> y"
    by simp_all
  define j where "j = nat (?e - 52)"
  have u: "pow2 (max ?e (- 1022) - 52) = 2 ^ j"
    using e by (auto simp: pow2_def j_def max_def)
  have ne: "nat ?e = 52 + j" using e by (simp add: j_def)
  have "(2::real) ^ 52 * 2 ^ j \<le> y" using b by (simp add: ne power_add)
  then have "of_int (2 ^ 52) \<le> y / 2 ^ j"
    by (simp add: pos_le_divide_eq)
  then have "2 ^ 52 \<le> round_half_even (y / 2 ^ j)"
    by (rule round_half_even_ge)
  then have "(2::real) ^ 52 \<le> of_int (round_half_even (y / 2 ^ j))"
    using of_int_le_iff [of "2 ^ 52" "round_half_even (y / 2 ^ j)", where ?'a = real]
    by simp
  then have A: "(2::real) ^ 52 * 2 ^ j \<le> of_int (round_half_even (y / 2 ^ j)) * 2 ^ j"
    by (simp add: mult_right_mono)
  have B: "(2::real) ^ 53 \<le> 2 ^ 52 * 2 ^ j"
  proof -
    have "1 \<le> j" using e by (simp add: j_def)
    then have "(2::real) ^ 1 \<le> 2 ^ j" by (intro power_increasing) simp_all
    then show ?thesis by simp
  qed
  have final: "round_double y = of_int (round_half_even (y / 2 ^ j)) * 2 ^ j"
    using ypos by (simp add: round_double_def a u Let_def)
  from order_trans [OF B A] show ?thesis
    by (simp only: final)
qed


subsection \<open>Decimal digits and the conversion to a string\<close>

lemma digits_times_10: "0 < n \<Longrightarrow> digits (n * 10) = digits n @ ''0''"
  by (subst digits.simps) simp

lemma digits_shift: "0 < s \<Longrightarrow> digits (s * 10 ^ j) = digits s @ replicate j (CHR ''0'')"
proof (induction j)
  case 0
  then show ?case by simp
next
  case (Suc j)
  have "s * 10 ^ Suc j = (s * 10 ^ j) * 10" by simp
  then have "digits (s * 10 ^ Suc j) = digits ((s * 10 ^ j) * 10)"
    by (simp only:)
  also have "\<dots> = digits (s * 10 ^ j) @ ''0''"
    using Suc.prems by (intro digits_times_10) simp
  finally show ?case
    using Suc by (simp add: replicate_append_same)
qed

lemma length_digits_le: "0 < m \<Longrightarrow> n < 10 ^ m \<Longrightarrow> length (digits n) \<le> m"
proof (induction n arbitrary: m rule: digits.induct)
  case (1 n)
  show ?case
  proof (cases "n < 10")
    case True
    with "1.prems" show ?thesis by (subst digits.simps) simp
  next
    case False
    with "1.prems" have m: "1 < m"
      by (cases "m = 1") auto
    then obtain m' where m': "m = Suc m'" "0 < m'" by (cases m) auto
    with "1.prems" have "n div 10 < 10 ^ m'"
      by (simp add: less_mult_imp_div_less mult.commute)
    from "1.IH" [OF False m'(2) this] False m' show ?thesis
      by (subst digits.simps) simp
  qed
qed

lemma length_digits_pos: "0 < length (digits n)"
  by (subst digits.simps) simp

lemma digits_bounds:
  "n < 10 ^ length (digits n) \<and> (0 < n \<longrightarrow> 10 ^ (length (digits n) - 1) \<le> n)"
proof (induction n rule: digits.induct)
  case (1 n)
  show ?case
  proof (cases "n < 10")
    case True
    then have "length (digits n) = 1" by (subst digits.simps) simp
    with True show ?thesis by auto
  next
    case False
    define L where "L = length (digits (n div 10))"
    from False have len: "length (digits n) = Suc L"
      unfolding L_def by (subst digits.simps) simp
    from length_digits_pos [of "n div 10"] obtain L' where L': "L = Suc L'"
      unfolding L_def by (cases "length (digits (n div 10))") auto
    from False have pos: "0 < n div 10" by (simp add: div_greater_zero_iff)
    from "1.IH" [OF False] pos
    have up: "n div 10 < 10 ^ L" and lo: "10 ^ L' \<le> n div 10"
      unfolding L_def [symmetric] L' by simp_all
    have n10: "10 * (n div 10) \<le> n" by simp
    from up have "n < 10 * 10 ^ L" by (simp add: div_less_iff_less_mult mult.commute)
    moreover from lo have "10 * 10 ^ L' \<le> 10 * (n div 10)" by simp
    with n10 have "10 * 10 ^ L' \<le> n" by linarith
    ultimately show ?thesis
      unfolding len L' by simp
  qed
qed

lemma candidates_iff:
  "(n, s) \<in> set (candidates X k) \<longleftrightarrow>
     (n = length (digits (nat X)) \<or> n = Suc (length (digits (nat X)))) \<and> k \<le> n \<and>
     (s = X div 10 ^ (n - k) \<or> s = X div 10 ^ (n - k) + 1) \<and>
     10 ^ (k - 1) \<le> s \<and> s < 10 ^ k \<and>
     round_double (of_int (s * 10 ^ (n - k))) = of_int X"
  unfolding candidates_def by (simp del: of_int_mult of_int_power) blast

text \<open>
  Below \<open>2\<^sup>5\<^sup>3\<close> a decimal that rounds to an integer is that integer, so every candidate
  spells the integer itself.
\<close>

lemma candidates_exact:
  assumes "0 < X" and "X < 2 ^ 53" and "(n, s) \<in> set (candidates X k)"
  shows "s * 10 ^ (n - k) = X \<and> 0 < s \<and> n \<le> 21"
proof -
  from assms(3) have n: "n \<le> Suc (length (digits (nat X)))"
    and s: "10 ^ (k - 1) \<le> s"
    and r: "round_double (of_int (s * 10 ^ (n - k))) = of_int X"
    by (auto simp: candidates_iff simp del: of_int_mult of_int_power)
  have "(0::int) < 10 ^ (k - 1)" by simp
  with s have spos: "0 < s" by linarith
  let ?y = "s * 10 ^ (n - k)"
  have ypos: "0 \<le> ?y" using spos by simp
  have "?y = X"
  proof (cases "?y < 2 ^ 53")
    case True
    from round_double_of_int [OF ypos True] r show ?thesis
      by (simp only: of_int_eq_iff)
  next
    case False
    then have "(2::int) ^ 53 \<le> ?y" by simp
    then have "(2::real) ^ 53 \<le> of_int ?y"
      using of_int_le_iff [of "2 ^ 53" ?y, where ?'a = real] by simp
    from round_double_large [OF this] r have "(2::real) ^ 53 \<le> of_int X"
      by (simp only:)
    then have "(2::int) ^ 53 \<le> X"
      using of_int_le_iff [of "2 ^ 53" X, where ?'a = real] by simp
    with assms(2) show ?thesis by simp
  qed
  moreover have "length (digits (nat X)) \<le> 16"
  proof (rule length_digits_le)
    from assms(2) have "X < 10 ^ 16" by simp
    then show "nat X < 10 ^ 16" by simp
  qed simp
  ultimately show ?thesis using spos n by simp
qed

lemma candidates_self:
  assumes "0 < X" and "X < 2 ^ 53"
  shows "(length (digits (nat X)), X) \<in> set (candidates X (length (digits (nat X))))"
proof -
  let ?L = "length (digits (nat X))"
  from assms(1) have npos: "0 < nat X" by simp
  from digits_bounds [of "nat X"] npos
  have up: "nat X < 10 ^ ?L" and lo: "10 ^ (?L - 1) \<le> nat X" by simp_all
  from up have "int (nat X) < int (10 ^ ?L)" by (simp only: of_nat_less_iff)
  then have up': "X < 10 ^ ?L" using assms(1) by simp
  from lo have "int (10 ^ (?L - 1)) \<le> int (nat X)" by (simp only: of_nat_le_iff)
  then have lo': "10 ^ (?L - 1) \<le> X" using assms(1) by simp
  have "round_double (of_int X) = of_int X"
    using assms by (intro round_double_of_int) simp_all
  with up' lo' show ?thesis
    by (simp add: candidates_iff)
qed

lemma pick_closest_Some: "pick_closest X k cs = Some c \<Longrightarrow> c \<in> set cs"
  by (induction cs arbitrary: c) (auto split: option.splits if_splits)

lemma pick_closest_None: "pick_closest X k cs = None \<Longrightarrow> cs = []"
  by (cases cs) (auto split: option.splits if_splits)

lemma pick_closest_mem: "cs \<noteq> [] \<Longrightarrow> \<exists>c \<in> set cs. pick_closest X k cs = Some c"
  using pick_closest_Some [of X k cs] pick_closest_None [of X k cs]
  by (cases "pick_closest X k cs") auto

lemma Number_toString_safe:
  assumes "0 < X" and "X < 2 ^ 53"
  shows "Number_toString X = digits (nat X)"
proof -
  let ?L = "length (digits (nat X))"
  have L: "?L \<in> set [1..<18]"
  proof -
    have "?L \<le> 16"
    proof (rule length_digits_le)
      from assms(2) have "X < 10 ^ 16" by simp
      then show "nat X < 10 ^ 16" by simp
    qed simp
    with length_digits_pos [of "nat X"] have "1 \<le> ?L \<and> ?L < 18" by linarith
    then show ?thesis by simp
  qed
  from candidates_self [OF assms] have "candidates X ?L \<noteq> []" by auto
  with L have "find (\<lambda>k. candidates X k \<noteq> []) [1..<18] \<noteq> None"
    by (auto simp: find_None_iff simp del: upt_Suc)
  then obtain k where k: "find (\<lambda>k. candidates X k \<noteq> []) [1..<18] = Some k" by auto
  then have "candidates X k \<noteq> []" by (auto simp: find_Some_iff)
  from pick_closest_mem [OF this] obtain n s
    where mem: "(n, s) \<in> set (candidates X k)"
      and pick: "pick_closest X k (candidates X k) = Some (n, s)" by force
  from candidates_exact [OF assms mem]
  have y: "s * 10 ^ (n - k) = X" and spos: "0 < s" and n21: "n \<le> 21" by simp_all
  have "nat (s * 10 ^ (n - k)) = nat s * nat (10 ^ (n - k))"
    using spos by (intro nat_mult_distrib) simp
  also have "nat (10 ^ (n - k)) = 10 ^ (n - k)"
    by (simp add: nat_power_eq)
  finally have "nat X = nat s * 10 ^ (n - k)"
    unfolding y .
  then have "digits (nat X) = digits (nat s) @ replicate (n - k) (CHR ''0'')"
    using spos by (simp add: digits_shift)
  with k pick n21 show ?thesis
    by (simp add: Number_toString_def shortest_def)
qed

text \<open>From \<open>0\<close> to \<open>2\<^sup>5\<^sup>3\<close> an integer is printed in plain decimal.\<close>

lemma String_of_safe: "0 \<le> k \<Longrightarrow> k < 2 ^ 53 \<Longrightarrow> String_of k = digits (nat k)"
  by (cases "k = 0") (simp_all add: String_of_def Number_toString_safe digits.simps)

subsection \<open>The time label\<close>

lemma padStart_two_digits:
  assumes "n < 100"
  shows "padStart (digits n) 2 (CHR ''0'') = two_digits n"
proof (cases "n < 10")
  case True
  then show ?thesis
    by (simp add: digits.simps [of n] padStart_def two_digits_def)
next
  case False
  with assms have "n div 10 < 10" by simp
  with False show ?thesis
    by (simp add: digits.simps [of n] digits.simps [of "n div 10"] padStart_def
        two_digits_def)
qed

lemma smod_60: "0 \<le> (s::int) \<Longrightarrow> s smod 60 = s mod 60"
  by (cases "s = 0") (simp_all add: signed_modulo_int_def)

lemma seconds_two_digits:
  assumes "0 \<le> (s::int)"
  shows "padStart (String_of (s smod 60)) 2 (CHR ''0'') = two_digits (nat (s mod 60))"
proof -
  have r: "0 \<le> s mod 60" "s mod 60 < 60" by simp_all
  then have "s mod 60 < 2 ^ 53" by simp
  with r have "String_of (s mod 60) = digits (nat (s mod 60))"
    by (intro String_of_safe)
  moreover from r have "nat (s mod 60) < 100" by linarith
  ultimately show ?thesis
    using assms by (simp add: smod_60 padStart_two_digits)
qed

text \<open>The label of any finite, non-negative input: the seconds are exact.\<close>

lemma formatTime_label:
  assumes "0 \<le> x"
  shows "formatTime (Fin x) =
     String_of \<lfloor>round_double (real_of_int \<lfloor>x\<rfloor> / 60)\<rfloor> @ '':'' @
     two_digits (nat (\<lfloor>x\<rfloor> mod 60))"
proof -
  from assms have "0 \<le> \<lfloor>x\<rfloor>" by simp
  from seconds_two_digits [OF this] assms show ?thesis
    by (simp add: formatTime_def Let_def)
qed




lemmas label_eval = minutes_seconds_def two_digits_def digits.simps

lemmas round_eval =
  round_double_def binary_exponent_def compute_bitlen pow2_def round_half_even_def Let_def

text \<open>
  Two inputs beyond \<open>2\<^sup>5\<^sup>3\<close>, both doubles. At 72000000000000056 the quotient
  1200000000000000.93 lies between the doubles 1200000000000000.75 and 1200000000000001
  and rounds to the latter. At \<^verbatim>\<open>6e22\<close> the minutes are \<^verbatim>\<open>1e21\<close>, which is printed in
  exponent notation.
\<close>

lemma formatTime_72000000000000056:
  "formatTime (Fin 72000000000000056) = ''1200000000000001:56''"
proof -
  have lbl: "formatTime (Fin 72000000000000056) =
      String_of \<lfloor>round_double (real_of_int \<lfloor>72000000000000056::real\<rfloor> / 60)\<rfloor> @ '':'' @
      two_digits (nat (\<lfloor>72000000000000056::real\<rfloor> mod 60))"
    by (rule formatTime_label) simp
  have m: "\<lfloor>round_double (real_of_int \<lfloor>72000000000000056::real\<rfloor> / 60)\<rfloor>
      = 1200000000000001"
    by (simp add: round_eval)
  have "String_of 1200000000000001 = digits (nat 1200000000000001)"
    by (rule String_of_safe) simp_all
  then have "String_of 1200000000000001 = ''1200000000000001''"
    by (simp add: digits.simps)
  moreover have "two_digits (nat (\<lfloor>72000000000000056::real\<rfloor> mod 60)) = ''56''"
    by (simp add: two_digits_def)
  ultimately show ?thesis
    unfolding lbl m by (simp only: append.simps)
qed

lemma String_of_1e21: "String_of 1000000000000000000000 = ''1e+21''"
proof -
  have d: "length (digits (nat 1000000000000000000000)) = 22"
    by (simp add: digits.simps)
  have r1: "round_double 1000000000000000000000 = 1000000000000000000000"
    and r2: "round_double 2000000000000000000000 \<noteq> 1000000000000000000000"
    and r3: "round_double 10000000000000000000000 \<noteq> 1000000000000000000000"
    by (simp_all add: round_eval)
  have "candidates 1000000000000000000000 1 = [(22, 1)]"
    unfolding candidates_def d by (simp add: r1 r2 r3)
  then have c: "candidates 1000000000000000000000 (Suc 0) = [(22, 1)]"
    by simp
  have f: "find (\<lambda>k. candidates 1000000000000000000000 k \<noteq> []) [1..<18] = Some (Suc 0)"
    by (simp add: upt_conv_Cons [of "Suc 0" 18] c)
  show ?thesis
    unfolding String_of_def Number_toString_def shortest_def f
    by (simp add: c digits.simps)
qed

lemma formatTime_6e22: "formatTime (Fin 60000000000000000000000) = ''1e+21:00''"
proof -
  have lbl: "formatTime (Fin 60000000000000000000000) =
      String_of \<lfloor>round_double (real_of_int \<lfloor>60000000000000000000000::real\<rfloor> / 60)\<rfloor>
      @ '':'' @ two_digits (nat (\<lfloor>60000000000000000000000::real\<rfloor> mod 60))"
    by (rule formatTime_label) simp
  have m: "\<lfloor>round_double (real_of_int \<lfloor>60000000000000000000000::real\<rfloor> / 60)\<rfloor>
      = 1000000000000000000000"
    by (simp add: round_eval)
  have "two_digits (nat (\<lfloor>60000000000000000000000::real\<rfloor> mod 60)) = ''00''"
    by (simp add: two_digits_def)
  then show ?thesis
    unfolding lbl m String_of_1e21 by (simp only: append.simps)
qed



text \<open>
  C10, as the claim states it, fails above \<open>2\<^sup>5\<^sup>3\<close>: 72000000000000056 is a double, its
  sixtieth rounds up to 1200000000000001, and the label shows one minute more than
  \<open>\<lfloor>s / 60\<rfloor>\<close>.
\<close>

theorem formatTime_rounding_counterexample:
  "formatTime (Fin 72000000000000056) = ''1200000000000001:56''
   \<and> digits (nat \<lfloor>(72000000000000056::real) / 60\<rfloor>) @ '':'' @
       two_digits (nat (\<lfloor>72000000000000056::real\<rfloor> mod 60))
     = ''1200000000000000:56''"
  by (simp add: formatTime_72000000000000056 label_eval)



subsection \<open>The commands on an attached element\<close>

lemma videoRef_Some: "videoRef p = Some v \<longleftrightarrow> attached p \<and> video p = v"
  by (simp add: videoRef_def)

lemma videoRef_None: "videoRef p = None \<longleftrightarrow> \<not> attached p"
  by (simp add: videoRef_def)

lemma setVolume_Some:
  assumes "vol \<noteq> NaN" and "videoRef p = Some v"
  shows "setVolume vol p =
     Inr (p\<lparr>video :=
        (if js_greater (clamp vol (Fin 0) (Fin 1)) (Fin 0)
         then v\<lparr>HTMLVideoElement.volume := clamp vol (Fin 0) (Fin 1),
                HTMLVideoElement.muted := False\<rparr>
         else v\<lparr>HTMLVideoElement.volume := clamp vol (Fin 0) (Fin 1)\<rparr>)\<rparr>)"
proof -
  from clamp_unit [OF assms(1)] obtain x where
    "clamp vol (Fin 0) (Fin 1) = Fin x" "0 \<le> x" "x \<le> 1" by blast
  then show ?thesis
    using assms(2) by (simp add: setVolume_def set_volume_def set_muted_def)
qed

lemma setVolume_NaN_throws: "videoRef p = Some v \<Longrightarrow> setVolume NaN p = Inl TypeError"
  by (simp add: setVolume_def set_volume_def clamp_def Math_max_def Math_min_def)

text \<open>Thanks to the clamp the element never refuses a volume for being out of range.\<close>

lemma setVolume_never_IndexSizeError: "setVolume vol p \<noteq> Inl IndexSizeError"
proof (cases "videoRef p")
  case None
  then show ?thesis by (simp add: setVolume_def)
next
  case (Some v)
  then show ?thesis
    by (cases "vol = NaN") (simp_all add: setVolume_NaN_throws setVolume_Some)
qed

lemma seekTo_NaN_throws: "videoRef p = Some v \<Longrightarrow> seekTo NaN p = Inl TypeError"
  by (simp add: seekTo_def set_currentTime_def clamp_def Math_max_def Math_min_def)

lemmas scenario_eval =
  VideoPlayer_def videoRef_def scenario_video_def fresh_video_def initial_state_def
  after_def and_then_def

text \<open>
  C2, as the claim states it, fails for \<^verbatim>\<open>NaN\<close>: \<^verbatim>\<open>clamp(NaN, 0, 1)\<close> is \<^verbatim>\<open>NaN\<close>,
  the element refuses it with \<^verbatim>\<open>TypeError\<close>, and nothing is stored.
\<close>

theorem setVolume_NaN_counterexample:
  "clamp NaN (Fin 0) (Fin 1) = NaN
   \<and> setVolume NaN (VideoPlayer (Some scenario_video) False) = Inl TypeError
   \<and> map_option HTMLVideoElement.volume
        (after (setVolume NaN (VideoPlayer (Some scenario_video) False)))
      \<noteq> Some (clamp NaN (Fin 0) (Fin 1))"
  by (simp add: setVolume_NaN_throws scenario_eval clamp_def Math_max_def Math_min_def)

text \<open>
  C2, amended: for every input \<open>vol\<close> other than \<^verbatim>\<open>NaN\<close> and every attached element,
  \<^verbatim>\<open>setVolume(vol)\<close> returns and leaves the element's volume at \<^verbatim>\<open>clamp(vol, 0, 1)\<close>;
  if \<open>vol > 0\<close> the element is not muted afterwards, whatever it was before.
\<close>

theorem setVolume_stores_clamp:
  assumes "vol \<noteq> NaN" and "videoRef p = Some v"
  shows "map_option HTMLVideoElement.volume (after (setVolume vol p))
       = Some (clamp vol (Fin 0) (Fin 1))
     \<and> (js_greater vol (Fin 0) \<longrightarrow>
          map_option HTMLVideoElement.muted (after (setVolume vol p)) = Some False)"
proof -
  from assms(2) have "attached p" by (simp add: videoRef_Some)
  with clamp_unit_pos [of vol] show ?thesis
    by (simp add: setVolume_Some [OF assms] after_def videoRef_def)
qed

theorem setVolume_stores_clamp_witness:
  "Fin (4 / 5) \<noteq> NaN
   \<and> videoRef (VideoPlayer (Some scenario_video) False) = Some scenario_video
   \<and> HTMLVideoElement.muted scenario_video
   \<and> js_greater (Fin (4 / 5)) (Fin 0)
   \<and> map_option HTMLVideoElement.volume
        (after (setVolume (Fin (4 / 5)) (VideoPlayer (Some scenario_video) False)))
      = Some (Fin (4 / 5))
   \<and> map_option HTMLVideoElement.muted
        (after (setVolume (Fin (4 / 5)) (VideoPlayer (Some scenario_video) False)))
      = Some False"
  using setVolume_stores_clamp
    [of "Fin (4 / 5)" "VideoPlayer (Some scenario_video) False" scenario_video]
  by (simp add: scenario_eval clamp_cases js_greater_def)

text \<open>
  C3, as the claim states it, fails for the seek target \<^verbatim>\<open>NaN\<close>: the clamp returns
  \<^verbatim>\<open>NaN\<close>, the element refuses it with \<^verbatim>\<open>TypeError\<close>, and the current time is
  neither \<^verbatim>\<open>clamp(t, 0, d)\<close> (known duration, first element) nor set to \<open>0\<close> (unknown
  duration, second element).
\<close>

theorem seekTo_NaN_counterexample:
  "seekTo NaN (VideoPlayer (Some scenario_video) False) = Inl TypeError
   \<and> map_option currentTime (after (seekTo NaN (VideoPlayer (Some scenario_video) False)))
      \<noteq> Some (clamp NaN (Fin 0) (Fin 120))
   \<and> seekTo NaN (VideoPlayer (Some fresh_video) False) = Inl TypeError
   \<and> map_option currentTime (after (seekTo NaN (VideoPlayer (Some fresh_video) False)))
      \<noteq> Some (Fin 0)"
  by (simp add: seekTo_NaN_throws scenario_eval)

text \<open>
  C3, amended: for every seek target \<open>t\<close> other than \<^verbatim>\<open>NaN\<close> and every attached
  element, \<^verbatim>\<open>seekTo(t)\<close> returns and leaves the current time at \<^verbatim>\<open>clamp(t, 0, d)\<close>
  when the duration \<open>d\<close> is finite, and at \<open>0\<close> when it is not.
\<close>

theorem seekTo_clamps:
  assumes "t \<noteq> NaN" and "videoRef p = Some v"
  shows "map_option currentTime (after (seekTo t p)) =
     Some (if isFinite (HTMLVideoElement.duration v)
           then clamp t (Fin 0) (HTMLVideoElement.duration v) else Fin 0)"
proof -
  let ?d = "if isFinite (HTMLVideoElement.duration v) then HTMLVideoElement.duration v
    else Fin 0"
  obtain d where d: "?d = Fin d"
    by (cases "HTMLVideoElement.duration v") simp_all
  from assms(1) obtain x where x: "clamp t (Fin 0) (Fin d) = Fin x"
    by (cases t) (simp_all add: clamp_cases)
  have unknown: "x = 0" if "\<not> isFinite (HTMLVideoElement.duration v)"
  proof -
    from that d have "d = 0" by simp
    with x assms(1) show ?thesis by (cases t) (simp_all add: clamp_cases)
  qed
  from d x have "seekTo t p = Inr (p\<lparr>video := v\<lparr>currentTime := Fin x\<rparr>\<rparr>)"
    using assms(2) by (simp add: seekTo_def set_currentTime_def)
  moreover from assms(2) have "attached p" by (simp add: videoRef_Some)
  ultimately show ?thesis
    using d x unknown by (simp add: after_def videoRef_def split: if_splits)
qed

theorem seekTo_clamps_witness:
  "Fin 500 \<noteq> NaN
   \<and> videoRef (VideoPlayer (Some scenario_video) False) = Some scenario_video
   \<and> map_option currentTime
        (after (seekTo (Fin 500) (VideoPlayer (Some scenario_video) False)))
      = Some (Fin 120)
   \<and> PosInf \<noteq> NaN
   \<and> videoRef (VideoPlayer (Some fresh_video) False) = Some fresh_video
   \<and> map_option currentTime (after (seekTo PosInf (VideoPlayer (Some fresh_video) False)))
      = Some (Fin 0)"
  using seekTo_clamps [of "Fin 500" "VideoPlayer (Some scenario_video) False" scenario_video]
    seekTo_clamps [of PosInf "VideoPlayer (Some fresh_video) False" fresh_video]
  by (simp add: scenario_eval clamp_cases)

text \<open>
  C4: on an attached element one \<^verbatim>\<open>toggleMute\<close> flips the mute flag, and two in a row
  restore it (and leave the whole player as it was).
\<close>

theorem toggleMute_involution:
  assumes "videoRef p = Some v"
  shows "map_option HTMLVideoElement.muted (after (toggleMute p))
       = Some (\<not> HTMLVideoElement.muted v)
     \<and> map_option HTMLVideoElement.muted (after (and_then (toggleMute p) toggleMute))
       = Some (HTMLVideoElement.muted v)
     \<and> and_then (toggleMute p) toggleMute = Inr p"
proof -
  from assms have a: "attached p" and v: "video p = v"
    by (simp_all add: videoRef_Some)
  have once: "toggleMute p = Inr (p\<lparr>video := v\<lparr>HTMLVideoElement.muted := \<not> HTMLVideoElement.muted v\<rparr>\<rparr>)"
    using assms by (simp add: toggleMute_def set_muted_def)
  have "toggleMute (p\<lparr>video := v\<lparr>HTMLVideoElement.muted := \<not> HTMLVideoElement.muted v\<rparr>\<rparr>)
      = Inr (p\<lparr>video := v\<rparr>)"
    using a by (simp add: toggleMute_def set_muted_def videoRef_def)
  also have "p\<lparr>video := v\<rparr> = p"
    using v by auto
  finally have twice: "and_then (toggleMute p) toggleMute = Inr p"
    by (simp add: once and_then_def)
  have first: "map_option HTMLVideoElement.muted (after (toggleMute p))
      = Some (\<not> HTMLVideoElement.muted v)"
    using a by (simp add: once after_def videoRef_def)
  have second: "map_option HTMLVideoElement.muted (after (and_then (toggleMute p) toggleMute))
      = Some (HTMLVideoElement.muted v)"
    unfolding twice using a v by (simp add: after_def videoRef_def)
  from first second twice show ?thesis
    by (intro conjI)
qed

theorem toggleMute_involution_witness:
  "videoRef (VideoPlayer (Some scenario_video) False) = Some scenario_video
   \<and> map_option HTMLVideoElement.muted
        (after (toggleMute (VideoPlayer (Some scenario_video) False))) = Some False
   \<and> map_option HTMLVideoElement.muted
        (after (and_then (toggleMute (VideoPlayer (Some scenario_video) False)) toggleMute))
      = Some True"
  using toggleMute_involution [of "VideoPlayer (Some scenario_video) False" scenario_video]
  by (simp add: scenario_eval)

text \<open>
  C6: without an element (\<^verbatim>\<open>videoRef.current\<close> is \<^verbatim>\<open>null\<close>) each of the five
  commands returns without an exception and leaves the player (reference, snapshot,
  console, requests) exactly as it was, whatever its argument.
\<close>

theorem commands_unattached_noop:
  assumes "videoRef p = None"
  shows "togglePlay allowed p = Inr p \<and> seekTo t p = Inr p \<and> toggleMute p = Inr p
     \<and> setVolume vol p = Inr p \<and> fullscreen granted p = Inr p"
  using assms
  by (simp add: togglePlay_def seekTo_def toggleMute_def setVolume_def fullscreen_def)

theorem commands_unattached_noop_witness:
  "videoRef (VideoPlayer None False) = None
   \<and> togglePlay True (VideoPlayer None False) = Inr (VideoPlayer None False)
   \<and> seekTo NaN (VideoPlayer None False) = Inr (VideoPlayer None False)
   \<and> toggleMute (VideoPlayer None False) = Inr (VideoPlayer None False)
   \<and> setVolume NaN (VideoPlayer None False) = Inr (VideoPlayer None False)
   \<and> fullscreen False (VideoPlayer None False) = Inr (VideoPlayer None False)"
  using commands_unattached_noop [of "VideoPlayer None False" True NaN NaN False]
  by (simp add: VideoPlayer_def videoRef_def)

text \<open>
  C7: when the element is paused and the platform rejects the play request,
  \<^verbatim>\<open>togglePlay\<close> returns without an exception; the player differs from the one before
  only by one line on the console and one play request issued (none repeated), so the
  element is still paused and the snapshot is unchanged.
\<close>

theorem togglePlay_rejection_logged:
  assumes "videoRef p = Some v" and "paused v"
  shows "togglePlay False p =
     Inr (p\<lparr>console := console p @ [(''play() failed:'', NotAllowedError)],
           requests := requests p @ [PlayRequest]\<rparr>)"
  using assms by (simp add: togglePlay_def video_play_def)

theorem togglePlay_rejection_logged_witness:
  "videoRef (VideoPlayer (Some fresh_video) False) = Some fresh_video
   \<and> paused fresh_video
   \<and> togglePlay False (VideoPlayer (Some fresh_video) False) =
       Inr \<lparr>video = fresh_video, attached = True, state = initial_state, listeners = [],
            effect_cleanup = False, fullscreenElement = False,
            console = [(''play() failed:'', NotAllowedError)],
            requests = [PlayRequest]\<rparr>"
  using togglePlay_rejection_logged [of "VideoPlayer (Some fresh_video) False" fresh_video]
  by (simp add: VideoPlayer_def videoRef_def fresh_video_def)

subsection \<open>The volume stays in the unit interval\<close>

lemma run_handler_volume:
  assumes "in_unit_interval (HTMLVideoElement.volume v)"
    and "in_unit_interval (PlayerState.volume s)"
  shows "in_unit_interval (PlayerState.volume (run_handler h v s))"
  using assms
  by (cases h)
    (simp_all add: onLoadedMetadata_def onTimeUpdate_def onPlay_def onPause_def onVolume_def)

lemma foldl_run_handler_volume:
  assumes "in_unit_interval (HTMLVideoElement.volume v)"
  shows "in_unit_interval (PlayerState.volume s) \<Longrightarrow>
     in_unit_interval (PlayerState.volume (foldl (\<lambda>s h. run_handler h v s) s hs))"
  by (induction hs arbitrary: s) (simp_all add: run_handler_volume [OF assms])

lemma dispatchEvent_volume_inv: "volume_inv p \<Longrightarrow> volume_inv (dispatchEvent ev p)"
  by (simp add: volume_inv_def dispatchEvent_def foldl_run_handler_volume)

lemma useEffect_setup_volume_inv: "volume_inv p \<Longrightarrow> volume_inv (useEffect_setup p)"
  by (auto simp: volume_inv_def useEffect_setup_def Let_def onVolume_def videoRef_Some
      split: option.splits)

lemma useEffect_cleanup_volume_inv: "volume_inv p \<Longrightarrow> volume_inv (useEffect_cleanup p)"
  by (simp add: volume_inv_def useEffect_cleanup_def Let_def)

lemma togglePlay_volume_inv:
  "volume_inv p \<Longrightarrow> togglePlay allowed p = Inr p' \<Longrightarrow> volume_inv p'"
  by (auto simp: volume_inv_def togglePlay_def video_play_def video_pause_def videoRef_Some
      split: if_splits option.splits)

lemma seekTo_volume_inv: "volume_inv p \<Longrightarrow> seekTo t p = Inr p' \<Longrightarrow> volume_inv p'"
  by (auto simp: volume_inv_def seekTo_def set_currentTime_def Let_def videoRef_Some
      split: if_splits option.splits)

lemma toggleMute_volume_inv: "volume_inv p \<Longrightarrow> toggleMute p = Inr p' \<Longrightarrow> volume_inv p'"
  by (auto simp: volume_inv_def toggleMute_def set_muted_def videoRef_Some
      split: option.splits)

lemma fullscreen_volume_inv:
  "volume_inv p \<Longrightarrow> fullscreen granted p = Inr p' \<Longrightarrow> volume_inv p'"
  by (cases "videoRef p") (auto simp: volume_inv_def fullscreen_def Let_def split: if_splits)

lemma setVolume_volume_inv:
  assumes "volume_inv p" and "setVolume vol p = Inr p'"
  shows "volume_inv p'"
proof (cases "videoRef p")
  case None
  with assms show ?thesis by (simp add: setVolume_def)
next
  case (Some v)
  with assms(2) have "vol \<noteq> NaN" by (auto simp: setVolume_NaN_throws)
  with assms Some show ?thesis
    by (auto simp: setVolume_Some volume_inv_def in_unit_interval_clamp)
qed

lemma step_volume_inv:
  assumes "volume_inv p"
  shows "volume_inv (step p a)"
proof (cases a)
  case DetachRef
  with assms show ?thesis by (simp add: step_def volume_inv_def)
qed (use assms in \<open>auto simp: step_def dispatchEvent_volume_inv useEffect_setup_volume_inv
      useEffect_cleanup_volume_inv
      split: sum.splits
      dest: togglePlay_volume_inv seekTo_volume_inv toggleMute_volume_inv
        fullscreen_volume_inv setVolume_volume_inv\<close>)

lemma run_volume_inv: "volume_inv p \<Longrightarrow> volume_inv (run as p)"
  unfolding run_def by (induction as arbitrary: p) (simp_all add: step_volume_inv)

lemmas run_eval =
  run_def step_def useEffect_setup_def useEffect_cleanup_def dispatchEvent_def
  addEventListener_def removeEventListener_def onLoadedMetadata_def onTimeUpdate_def
  onPlay_def onPause_def onVolume_def js_or_def Let_def
  togglePlay_def video_play_def video_pause_def seekTo_def set_currentTime_def
  toggleMute_def set_muted_def setVolume_def set_volume_def fullscreen_def
  clamp_def Math_max_def Math_min_def js_greater_def js_le_def

text \<open>
  C1: a player starts with the snapshot volume \<open>1\<close>; if its element (when there is one)
  has its volume in \<open>[0, 1]\<close>, as the platform guarantees, then after every sequence of
  commands, notifications, set-ups and clean-ups the snapshot's volume \<open>x\<close> satisfies
  \<open>0 \<le> x \<le> 1\<close>. The arguments of \<^verbatim>\<open>setVolume\<close> are arbitrary, \<^verbatim>\<open>NaN\<close> and the
  infinities included: the infinities are clamped, and \<^verbatim>\<open>NaN\<close> is refused by the
  element, which keeps its volume.
\<close>

theorem volume_in_unit_interval:
  assumes "case el of None \<Rightarrow> True | Some v \<Rightarrow> in_unit_interval (HTMLVideoElement.volume v)"
  shows "js_le (Fin 0) (PlayerState.volume (state (run as (VideoPlayer el fs))))
     \<and> js_le (PlayerState.volume (state (run as (VideoPlayer el fs)))) (Fin 1)"
proof -
  have "volume_inv (VideoPlayer el fs)"
    using assms
    by (cases el) (simp_all add: volume_inv_def VideoPlayer_def initial_state_def fresh_video_def)
  then have "volume_inv (run as (VideoPlayer el fs))"
    by (rule run_volume_inv)
  then show ?thesis
    by (simp add: volume_inv_def in_unit_interval_def)
qed

theorem volume_in_unit_interval_witness:
  "in_unit_interval (HTMLVideoElement.volume scenario_video)
   \<and> PlayerState.volume (state (run
        [Setup, SetVolume PosInf, Notify VolumeChange, SetVolume NaN, Notify VolumeChange]
        (VideoPlayer (Some scenario_video) False))) = Fin 1
   \<and> js_le (Fin 0) (PlayerState.volume (state (run
        [Setup, SetVolume PosInf, Notify VolumeChange, SetVolume NaN, Notify VolumeChange]
        (VideoPlayer (Some scenario_video) False))))
   \<and> js_le (PlayerState.volume (state (run
        [Setup, SetVolume PosInf, Notify VolumeChange, SetVolume NaN, Notify VolumeChange]
        (VideoPlayer (Some scenario_video) False)))) (Fin 1)"
  using volume_in_unit_interval [of "Some scenario_video"
      "[Setup, SetVolume PosInf, Notify VolumeChange, SetVolume NaN, Notify VolumeChange]"
      False]
  by (simp add: scenario_eval run_eval)

subsection \<open>Subscriptions\<close>

lemma listeners_setup:
  "videoRef p = Some v \<Longrightarrow> listeners p = [] \<Longrightarrow>
   listeners (useEffect_setup p) =
     [(LoadedMetadata, OnLoadedMetadata), (TimeUpdate, OnTimeUpdate), (Play, OnPlay),
      (Pause, OnPause), (VolumeChange, OnVolume)]"
  by (simp add: useEffect_setup_def addEventListener_def Let_def)

lemma set_addEventListener: "set (addEventListener ty h ls) = insert (ty, h) (set ls)"
  by (auto simp: addEventListener_def)

lemma setup_mirror_inv: "mirror_inv p \<Longrightarrow> mirror_inv (useEffect_setup p)"
  by (cases "videoRef p")
    (auto simp: mirror_inv_def useEffect_setup_def Let_def set_addEventListener)

text \<open>The clean-up takes out exactly what the effect put in.\<close>

lemma listeners_cleanup:
  assumes "mirror_inv p"
  shows "listeners (useEffect_cleanup p) = []"
proof (cases "effect_cleanup p")
  case True
  with assms have "set (listeners (useEffect_cleanup p)) = {}"
    by (auto simp: mirror_inv_def useEffect_cleanup_def Let_def removeEventListener_def)
  then show ?thesis by simp
next
  case False
  with assms show ?thesis
    by (simp add: mirror_inv_def useEffect_cleanup_def)
qed

lemma cleanup_mirror_inv: "mirror_inv p \<Longrightarrow> mirror_inv (useEffect_cleanup p)"
  using listeners_cleanup [of p] by (simp add: mirror_inv_def)

text \<open>
  The commands write neither the listeners nor the snapshot: only the effect and the
  handlers do.
\<close>

lemma togglePlay_frame:
  "togglePlay allowed p = Inr p' \<Longrightarrow>
   listeners p' = listeners p \<and> effect_cleanup p' = effect_cleanup p \<and> state p' = state p"
  by (cases "videoRef p") (auto simp: togglePlay_def video_play_def split: if_splits)

lemma seekTo_frame:
  "seekTo t p = Inr p' \<Longrightarrow>
   listeners p' = listeners p \<and> effect_cleanup p' = effect_cleanup p \<and> state p' = state p"
  by (cases "videoRef p") (auto simp: seekTo_def Let_def split: sum.splits)

lemma toggleMute_frame:
  "toggleMute p = Inr p' \<Longrightarrow>
   listeners p' = listeners p \<and> effect_cleanup p' = effect_cleanup p \<and> state p' = state p"
  by (cases "videoRef p") (auto simp: toggleMute_def)

lemma setVolume_frame:
  "setVolume vol p = Inr p' \<Longrightarrow>
   listeners p' = listeners p \<and> effect_cleanup p' = effect_cleanup p \<and> state p' = state p"
  by (cases "videoRef p") (auto simp: setVolume_def split: sum.splits)

lemma fullscreen_frame:
  "fullscreen granted p = Inr p' \<Longrightarrow>
   listeners p' = listeners p \<and> effect_cleanup p' = effect_cleanup p \<and> state p' = state p"
  by (cases "videoRef p") (auto simp: fullscreen_def Let_def split: if_splits)

lemma step_mirror_inv:
  assumes "mirror_inv p"
  shows "mirror_inv (step p a)"
proof (cases a)
  case Setup
  with assms show ?thesis by (simp add: step_def setup_mirror_inv)
next
  case Cleanup
  with assms show ?thesis by (simp add: step_def cleanup_mirror_inv)
next
  case (Notify ev)
  with assms show ?thesis by (simp add: step_def mirror_inv_def dispatchEvent_def)
next
  case DetachRef
  with assms show ?thesis by (simp add: step_def mirror_inv_def)
qed (use assms in \<open>auto simp: step_def mirror_inv_def split: sum.splits
      dest!: togglePlay_frame seekTo_frame toggleMute_frame setVolume_frame
        fullscreen_frame\<close>)

lemma run_mirror_inv: "mirror_inv p \<Longrightarrow> mirror_inv (run as p)"
  unfolding run_def by (induction as arbitrary: p) (simp_all add: step_mirror_inv)

lemma mirror_inv_VideoPlayer: "mirror_inv (VideoPlayer el fs)"
  by (simp add: mirror_inv_def VideoPlayer_def)

lemma dispatchEvent_no_listeners: "listeners p = [] \<Longrightarrow> dispatchEvent ev p = p"
  by (simp add: dispatchEvent_def)

lemma step_detached:
  assumes "listeners p = []" and "a \<noteq> Setup"
  shows "listeners (step p a) = [] \<and> state (step p a) = state p"
proof (cases a)
  case (Notify ev)
  with assms show ?thesis by (simp add: step_def dispatchEvent_no_listeners)
next
  case Cleanup
  with assms show ?thesis
    by (simp add: step_def useEffect_cleanup_def removeEventListener_def)
next
  case DetachRef
  with assms show ?thesis by (simp add: step_def)
next
  case Setup
  with assms show ?thesis by simp
qed (use assms in \<open>auto simp: step_def split: sum.splits
      dest: togglePlay_frame seekTo_frame toggleMute_frame setVolume_frame
        fullscreen_frame\<close>)

lemma run_detached:
  "listeners p = [] \<Longrightarrow> Setup \<notin> set as \<Longrightarrow>
   listeners (run as p) = [] \<and> state (run as p) = state p"
  unfolding run_def
proof (induction as arbitrary: p)
  case Nil
  then show ?case by simp
next
  case (Cons a as)
  from Cons.prems have a: "a \<noteq> Setup" and as: "Setup \<notin> set as" by auto
  from step_detached [OF Cons.prems(1) a] Cons.IH [of "step p a"] as
  show ?case by simp
qed

text \<open>
  Resetting the reference alone stops nothing: until the clean-up has run, the handlers
  still fire on the node they captured.
\<close>

lemma notification_before_cleanup:
  "playing (state (run [Setup, DetachRef] (VideoPlayer (Some scenario_video) False))) = False
   \<and> playing (state (dispatchEvent Play
        (run [Setup, DetachRef] (VideoPlayer (Some scenario_video) False)))) = True"
  by (simp add: scenario_eval run_eval)

text \<open>
  C8: take a player with any history \<open>as\<close> since its construction (the reference may
  have been reset to \<^verbatim>\<open>null\<close> in it, as React does before the clean-up) and clean the
  effect up: the detachment. Whatever happens next short of a new set-up (\<open>bs\<close>: commands,
  notifications), a notification of any kind \<open>ev\<close> leaves the snapshot as it was when the
  effect was cleaned up.
\<close>

theorem no_update_after_cleanup:
  assumes "Setup \<notin> set bs"
  shows "state (dispatchEvent ev (run bs (useEffect_cleanup (run as (VideoPlayer el fs)))))
     = state (useEffect_cleanup (run as (VideoPlayer el fs)))"
proof -
  let ?q = "run as (VideoPlayer el fs)"
  have "mirror_inv ?q"
    by (rule run_mirror_inv) (rule mirror_inv_VideoPlayer)
  then have "listeners (useEffect_cleanup ?q) = []"
    by (rule listeners_cleanup)
  from run_detached [OF this assms] show ?thesis
    by (simp add: dispatchEvent_no_listeners)
qed

theorem no_update_after_cleanup_witness:
  "Setup \<notin> set [Notify Play, ToggleMute, Notify VolumeChange]
   \<and> listeners (run [Setup, Notify Pause, DetachRef] (VideoPlayer (Some scenario_video) False))
      = [(LoadedMetadata, OnLoadedMetadata), (TimeUpdate, OnTimeUpdate), (Play, OnPlay),
         (Pause, OnPause), (VolumeChange, OnVolume)]
   \<and> videoRef (run [Setup, Notify Pause, DetachRef] (VideoPlayer (Some scenario_video) False))
      = None
   \<and> state (useEffect_cleanup
        (run [Setup, Notify Pause, DetachRef] (VideoPlayer (Some scenario_video) False)))
      = \<lparr>playing = False, current = Fin 30, duration = Fin 120, muted = True,
         volume = Fin (1 / 2)\<rparr>
   \<and> state (dispatchEvent TimeUpdate (run [Notify Play, ToggleMute, Notify VolumeChange]
        (useEffect_cleanup
          (run [Setup, Notify Pause, DetachRef] (VideoPlayer (Some scenario_video) False)))))
      = \<lparr>playing = False, current = Fin 30, duration = Fin 120, muted = True,
         volume = Fin (1 / 2)\<rparr>"
proof -
  let ?q = "run [Setup, Notify Pause, DetachRef] (VideoPlayer (Some scenario_video) False)"
  have "listeners ?q
      = [(LoadedMetadata, OnLoadedMetadata), (TimeUpdate, OnTimeUpdate), (Play, OnPlay),
         (Pause, OnPause), (VolumeChange, OnVolume)]"
    and "videoRef ?q = None"
    and "state (useEffect_cleanup ?q)
      = \<lparr>playing = False, current = Fin 30, duration = Fin 120, muted = True,
         volume = Fin (1 / 2)\<rparr>"
    by (simp_all add: scenario_eval run_eval)
  with no_update_after_cleanup [of "[Notify Play, ToggleMute, Notify VolumeChange]" TimeUpdate
      "[Setup, Notify Pause, DetachRef]" "Some scenario_video" False]
  show ?thesis by simp
qed

text \<open>
  C9: on a player whose element carries the subscriptions of the effect, a notification
  changes only its own fields of the snapshot, whatever the snapshot was: metadata-loaded
  only \<open>duration\<close>, time-update only \<open>current\<close>, play and pause only \<open>playing\<close>,
  volume-change only \<open>volume\<close> and \<open>muted\<close>.
\<close>

theorem notification_frame:
  assumes "videoRef p = Some v"
    and "listeners p = listeners (useEffect_setup (VideoPlayer (Some v) fs))"
  shows "playing (state (dispatchEvent LoadedMetadata p)) = playing (state p)
     \<and> current (state (dispatchEvent LoadedMetadata p)) = current (state p)
     \<and> PlayerState.muted (state (dispatchEvent LoadedMetadata p)) = PlayerState.muted (state p)
     \<and> PlayerState.volume (state (dispatchEvent LoadedMetadata p)) = PlayerState.volume (state p)
     \<and> playing (state (dispatchEvent TimeUpdate p)) = playing (state p)
     \<and> PlayerState.duration (state (dispatchEvent TimeUpdate p)) = PlayerState.duration (state p)
     \<and> PlayerState.muted (state (dispatchEvent TimeUpdate p)) = PlayerState.muted (state p)
     \<and> PlayerState.volume (state (dispatchEvent TimeUpdate p)) = PlayerState.volume (state p)
     \<and> current (state (dispatchEvent Play p)) = current (state p)
     \<and> PlayerState.duration (state (dispatchEvent Play p)) = PlayerState.duration (state p)
     \<and> PlayerState.muted (state (dispatchEvent Play p)) = PlayerState.muted (state p)
     \<and> PlayerState.volume (state (dispatchEvent Play p)) = PlayerState.volume (state p)
     \<and> current (state (dispatchEvent Pause p)) = current (state p)
     \<and> PlayerState.duration (state (dispatchEvent Pause p)) = PlayerState.duration (state p)
     \<and> PlayerState.muted (state (dispatchEvent Pause p)) = PlayerState.muted (state p)
     \<and> PlayerState.volume (state (dispatchEvent Pause p)) = PlayerState.volume (state p)
     \<and> playing (state (dispatchEvent VolumeChange p)) = playing (state p)
     \<and> current (state (dispatchEvent VolumeChange p)) = current (state p)
     \<and> PlayerState.duration (state (dispatchEvent VolumeChange p)) = PlayerState.duration (state p)"
proof -
  have "videoRef (VideoPlayer (Some v) fs) = Some v" "listeners (VideoPlayer (Some v) fs) = []"
    by (simp_all add: VideoPlayer_def videoRef_def)
  with assms(2) have "listeners p =
      [(LoadedMetadata, OnLoadedMetadata), (TimeUpdate, OnTimeUpdate), (Play, OnPlay),
       (Pause, OnPause), (VolumeChange, OnVolume)]"
    by (simp add: listeners_setup)
  then show ?thesis
    by (simp add: dispatchEvent_def onLoadedMetadata_def onTimeUpdate_def onPlay_def
        onPause_def onVolume_def)
qed

theorem notification_frame_witness:
  "videoRef (run [Setup, SetVolume (Fin (1 / 4))] (VideoPlayer (Some scenario_video) False))
     = Some (scenario_video\<lparr>HTMLVideoElement.volume := Fin (1 / 4),
          HTMLVideoElement.muted := False\<rparr>)
   \<and> listeners (run [Setup, SetVolume (Fin (1 / 4))] (VideoPlayer (Some scenario_video) False))
     = listeners (useEffect_setup (VideoPlayer
         (Some (scenario_video\<lparr>HTMLVideoElement.volume := Fin (1 / 4),
            HTMLVideoElement.muted := False\<rparr>)) False))
   \<and> state (run [Setup, SetVolume (Fin (1 / 4))] (VideoPlayer (Some scenario_video) False))
     = \<lparr>playing = False, current = Fin 30, duration = Fin 120, muted = True,
        volume = Fin (1 / 2)\<rparr>
   \<and> playing (state (dispatchEvent VolumeChange
        (run [Setup, SetVolume (Fin (1 / 4))] (VideoPlayer (Some scenario_video) False))))
     = False
   \<and> current (state (dispatchEvent VolumeChange
        (run [Setup, SetVolume (Fin (1 / 4))] (VideoPlayer (Some scenario_video) False))))
     = Fin 30
   \<and> PlayerState.duration (state (dispatchEvent VolumeChange
        (run [Setup, SetVolume (Fin (1 / 4))] (VideoPlayer (Some scenario_video) False))))
     = Fin 120"
proof -
  let ?p = "run [Setup, SetVolume (Fin (1 / 4))] (VideoPlayer (Some scenario_video) False)"
  let ?v = "scenario_video\<lparr>HTMLVideoElement.volume := Fin (1 / 4),
    HTMLVideoElement.muted := False\<rparr>"
  have v: "videoRef ?p = Some ?v"
    and l: "listeners ?p = listeners (useEffect_setup (VideoPlayer (Some ?v) False))"
    and s: "state ?p = \<lparr>playing = False, current = Fin 30, duration = Fin 120,
      muted = True, volume = Fin (1 / 2)\<rparr>"
    by (simp_all add: scenario_eval run_eval)
  from notification_frame [OF v l] v l s show ?thesis
    by simp
qed

end
